theory Spec2Isabelle
  imports Main "HOL-Library.Word"
begin

unbundle bit_operations_syntax

section \<open>The XWayland surface bridge (xwayland_surface.cpp)\<close>

text \<open>
  A shallow embedding of \<^verbatim>\<open>mir::frontend::XWaylandSurface\<close>. The object is a record
  that every operation takes and returns; the calls it makes on the XCB connection and on
  the shell are returned as a list of effects, in the order the source issues them.
  Mutexes and logging have no counterpart: every operation is modelled as it runs on its
  own, and \<^verbatim>\<open>log_debug\<close> changes nothing.
\<close>

subsection \<open>Window state\<close>

type_synonym xcb_atom_t = "32 word"
type_synonym xcb_window_t = "32 word"

text \<open>
  \<^verbatim>\<open>MirWindowState\<close> is declared outside this file; its enumerators are the ones
  the \<^verbatim>\<open>switch\<close> of \<^verbatim>\<open>updated_from\<close> lists, the count sentinel
  \<^verbatim>\<open>mir_window_states\<close> included.
\<close>

datatype MirWindowState =
    mir_window_state_unknown
  | mir_window_state_restored
  | mir_window_state_minimized
  | mir_window_state_maximized
  | mir_window_state_vertmaximized
  | mir_window_state_fullscreen
  | mir_window_state_horizmaximized
  | mir_window_state_hidden
  | mir_window_state_attached
  | mir_window_states

record WindowState =
  withdrawn :: bool
  minimized :: bool
  maximized :: bool
  fullscreen :: bool

text \<open>\<^verbatim>\<open>WindowState::operator==\<close>\<close>

definition WindowState_eq :: "WindowState \<Rightarrow> WindowState \<Rightarrow> bool" where
  "WindowState_eq this that =
     (withdrawn this = withdrawn that \<and>
      minimized this = minimized that \<and>
      maximized this = maximized that \<and>
      fullscreen this = fullscreen that)"

text \<open>\<^verbatim>\<open>WindowState::mir_window_state\<close>: withdrawn is ignored.\<close>

definition mir_window_state :: "WindowState \<Rightarrow> MirWindowState" where
  "mir_window_state this =
     (if minimized this then mir_window_state_minimized
      else if fullscreen this then mir_window_state_fullscreen
      else if maximized this then mir_window_state_maximized
      else mir_window_state_restored)"

text \<open>
  \<^verbatim>\<open>WindowState::updated_from\<close>: a copy of the receiver with withdrawn cleared, then
  the \<^verbatim>\<open>switch\<close> on the native state, one equation per \<^verbatim>\<open>case\<close> label.
\<close>

fun updated_from :: "WindowState \<Rightarrow> MirWindowState \<Rightarrow> WindowState" where
  "updated_from this mir_window_state_hidden =
     this\<lparr>withdrawn := False, minimized := True\<rparr>"
| "updated_from this mir_window_state_minimized =
     this\<lparr>withdrawn := False, minimized := True\<rparr>"
| "updated_from this mir_window_state_fullscreen =
     this\<lparr>withdrawn := False, minimized := False, fullscreen := True\<rparr>"
| "updated_from this mir_window_state_maximized =
     this\<lparr>withdrawn := False, minimized := False, maximized := True, fullscreen := False\<rparr>"
| "updated_from this mir_window_state_vertmaximized =
     this\<lparr>withdrawn := False, minimized := False, maximized := True, fullscreen := False\<rparr>"
| "updated_from this mir_window_state_horizmaximized =
     this\<lparr>withdrawn := False, minimized := False, maximized := True, fullscreen := False\<rparr>"
| "updated_from this mir_window_state_restored =
     this\<lparr>withdrawn := False, minimized := False, maximized := False, fullscreen := False\<rparr>"
| "updated_from this mir_window_state_unknown =
     this\<lparr>withdrawn := False, minimized := False, maximized := False, fullscreen := False\<rparr>"
| "updated_from this mir_window_state_attached =
     this\<lparr>withdrawn := False, minimized := False, maximized := False, fullscreen := False\<rparr>"
| "updated_from this mir_window_states =
     this\<lparr>withdrawn := False\<rparr>"

subsection \<open>Geometry, surfaces and surface specifications\<close>

text \<open>
  \<^verbatim>\<open>geom::Point\<close>, \<^verbatim>\<open>geom::Size\<close> and \<^verbatim>\<open>geom::Displacement\<close> wrap
  \<^verbatim>\<open>int\<close> coordinates, which are 32 bits wide: a coordinate is an integer from
  \<open>- 2 ^ 31\<close> up to \<open>2 ^ 31 - 1\<close>, and a sum or difference that leaves this range
  wraps around in two's complement, as the 32-bit addition and subtraction of the
  machine do.
\<close>

definition wrap_int32 :: "int \<Rightarrow> int" where
  "wrap_int32 k = (k + 2147483648) mod 4294967296 - 2147483648"

record Point =
  point_x :: int
  point_y :: int

record Size =
  size_width :: int
  size_height :: int

record Displacement =
  displacement_dx :: int
  displacement_dy :: int

record Rectangle =
  rectangle_top_left :: Point
  rectangle_size :: Size

definition as_displacement :: "Point \<Rightarrow> Displacement" where
  "as_displacement p = \<lparr>displacement_dx = point_x p, displacement_dy = point_y p\<rparr>"

definition point_plus :: "Point \<Rightarrow> Displacement \<Rightarrow> Point" where
  "point_plus p d =
     \<lparr>point_x = wrap_int32 (point_x p + displacement_dx d),
      point_y = wrap_int32 (point_y p + displacement_dy d)\<rparr>"

definition point_minus :: "Point \<Rightarrow> Displacement \<Rightarrow> Point" where
  "point_minus p d =
     \<lparr>point_x = wrap_int32 (point_x p - displacement_dx d),
      point_y = wrap_int32 (point_y p - displacement_dy d)\<rparr>"

datatype MirPlacementGravity =
    mir_placement_gravity_center
  | mir_placement_gravity_west
  | mir_placement_gravity_east
  | mir_placement_gravity_north
  | mir_placement_gravity_south
  | mir_placement_gravity_northwest
  | mir_placement_gravity_northeast
  | mir_placement_gravity_southwest
  | mir_placement_gravity_southeast

text \<open>
  A scene surface as the bridge reads it: its identity and the values of the accessors
  \<^verbatim>\<open>top_left()\<close>, \<^verbatim>\<open>content_offset()\<close>, \<^verbatim>\<open>content_size()\<close>,
  \<^verbatim>\<open>state()\<close> and \<^verbatim>\<open>parent()\<close> (\<open>None\<close> for a null parent).
\<close>

datatype Surface =
  Surface (surface_id: nat) (surface_top_left: Point) (surface_content_offset: Displacement)
    (surface_content_size: Size) (surface_state: MirWindowState)
    (surface_parent: "Surface option")

text \<open>
  The fields of \<^verbatim>\<open>shell::SurfaceSpecification\<close> that this file writes, each an
  optional value. The parent is an optional weak pointer: \<open>Some None\<close> is a parent
  set to null.
\<close>

record SurfaceSpecification =
  spec_top_left :: "Point option"
  spec_aux_rect :: "Rectangle option"
  spec_placement_hints :: "32 word option"
  spec_surface_placement_gravity :: "MirPlacementGravity option"
  spec_aux_rect_placement_gravity :: "MirPlacementGravity option"
  spec_width :: "int option"
  spec_height :: "int option"
  spec_state :: "MirWindowState option"
  spec_parent :: "Surface option option"
  spec_application_id :: "string option"
  spec_name :: "string option"

text \<open>A default-constructed specification: nothing set.\<close>

definition empty_spec :: SurfaceSpecification where
  "empty_spec =
     \<lparr>spec_top_left = None, spec_aux_rect = None, spec_placement_hints = None,
      spec_surface_placement_gravity = None, spec_aux_rect_placement_gravity = None,
      spec_width = None, spec_height = None, spec_state = None, spec_parent = None,
      spec_application_id = None, spec_name = None\<rparr>"

definition is_empty :: "SurfaceSpecification \<Rightarrow> bool" where
  "is_empty spec = (spec = empty_spec)"

text \<open>
  \<^verbatim>\<open>set_position\<close>: with a parent, the position local to the parent's content as
  an aux rect of size 1x1 with north-west gravities; without one, an absolute top left.
\<close>

definition set_position ::
  "Surface option \<Rightarrow> Point \<Rightarrow> SurfaceSpecification \<Rightarrow> SurfaceSpecification" where
  "set_position parent top_left spec =
     (case parent of
        Some p \<Rightarrow>
          (let local_top_left =
                 point_minus (point_minus top_left (as_displacement (surface_top_left p)))
                   (surface_content_offset p)
           in spec\<lparr>spec_aux_rect :=
                      Some \<lparr>rectangle_top_left = local_top_left,
                            rectangle_size = \<lparr>size_width = 1, size_height = 1\<rparr>\<rparr>,
                    spec_placement_hints := Some 0,
                    spec_surface_placement_gravity := Some mir_placement_gravity_northwest,
                    spec_aux_rect_placement_gravity := Some mir_placement_gravity_northwest\<rparr>)
      | None \<Rightarrow> spec\<lparr>spec_top_left := Some top_left\<rparr>)"

subsection \<open>The connection, the effects and the bridge\<close>

text \<open>The atoms that the connection interned, read as \<^verbatim>\<open>connection->...\<close>.\<close>

record XCBConnection =
  wm_state :: xcb_atom_t
  net_wm_state :: xcb_atom_t
  net_wm_state_hidden :: xcb_atom_t
  net_wm_state_maximized_horz :: xcb_atom_t
  net_wm_state_maximized_vert :: xcb_atom_t
  net_wm_state_fullscreen :: xcb_atom_t

definition XCB_WINDOW_NONE :: xcb_window_t where
  "XCB_WINDOW_NONE = 0"

datatype xcb_stack_mode_t =
    XCB_STACK_MODE_ABOVE
  | XCB_STACK_MODE_BELOW
  | XCB_STACK_MODE_TOP_IF
  | XCB_STACK_MODE_BOTTOM_IF
  | XCB_STACK_MODE_OPPOSITE

datatype XCBType = XCBType_WM_STATE | XCBType_ATOM

text \<open>ICCCM 4.1.3.1: the \<^verbatim>\<open>WmState\<close> enumeration and its \<^verbatim>\<open>uint32_t\<close> values.\<close>

datatype WmState = WITHDRAWN | NORMAL | ICONIC

fun WmState_value :: "WmState \<Rightarrow> 32 word" where
  "WmState_value WITHDRAWN = 0"
| "WmState_value NORMAL = 1"
| "WmState_value ICONIC = 3"

datatype Session = Session nat

record WlSurface =
  wl_resource :: nat

datatype XWaylandSurfaceObserver = XWaylandSurfaceObserver WlSurface

text \<open>
  What \<^verbatim>\<open>attach_wl_surface\<close> puts into its creation parameters (the streams and the
  input shape, filled by the wl surface, are left out).
\<close>

datatype MirWindowType = mir_window_type_freestyle

record SurfaceCreationParameters =
  params_size :: Size
  params_top_left :: Point
  params_type :: MirWindowType
  params_state :: MirWindowState
  params_server_side_decorated :: bool

text \<open>
  The calls on the connection and on the shell. \<open>ModifySurface\<close> is
  \<^verbatim>\<open>shell->modify_surface(scene_surface->session().lock(), scene_surface, mods)\<close>; the
  session is the surface's own. \<open>CreateSurface\<close> is \<^verbatim>\<open>shell->create_surface\<close> with
  the parameters as built by the bridge and the consumed pending specification that
  \<^verbatim>\<open>params.update_from\<close> merged into them.
\<close>

datatype effect =
    SetProperty XCBType xcb_window_t xcb_atom_t "32 word list"
  | DeleteProperty xcb_window_t xcb_atom_t
  | ConfigureWindow xcb_window_t "Point option" "Size option" "xcb_window_t option"
      "xcb_stack_mode_t option"
  | Flush
  | ModifySurface Surface SurfaceSpecification
  | CreateSurface "Session option" SurfaceCreationParameters "SurfaceSpecification option"
      XWaylandSurfaceObserver

datatype error =
    invalid_wm_change_state "32 word"
  | set_wl_surface_called_multiple_times

datatype completion = Returned | Thrown error

text \<open>
  The bridge. The three weak or optional references hold what \<^verbatim>\<open>lock()\<close> or
  \<^verbatim>\<open>operator bool\<close> sees: \<open>None\<close> when unset, reset or expired.
\<close>

record XWaylandSurface =
  window :: xcb_window_t
  cached_override_redirect :: bool
  cached_top_left :: Point
  cached_size :: Size
  cached_supported_wm_protocols :: "xcb_atom_t set"
  cached_state :: WindowState
  nullable_pending_spec :: "SurfaceSpecification option"
  surface_observer :: "XWaylandSurfaceObserver option"
  weak_session :: "Session option"
  weak_scene_surface :: "Surface option"

text \<open>Running one operation after another: the effects are appended.\<close>

definition and_then ::
  "effect list \<times> XWaylandSurface \<Rightarrow> (XWaylandSurface \<Rightarrow> effect list \<times> XWaylandSurface) \<Rightarrow>
   effect list \<times> XWaylandSurface" where
  "and_then r f = (case r of (es, this) \<Rightarrow> (case f this of (es', this') \<Rightarrow> (es @ es', this')))"

subsection \<open>Pushing the window state\<close>

text \<open>
  \<^verbatim>\<open>inform_client_of_window_state\<close>: nothing when the new state equals the cached one;
  otherwise the cache is updated, WM_STATE is set, _NET_WM_STATE is deleted (withdrawn)
  or set to the list of state atoms, and the connection is flushed.
\<close>

definition inform_client_of_window_state ::
  "XCBConnection \<Rightarrow> WindowState \<Rightarrow> XWaylandSurface \<Rightarrow> effect list \<times> XWaylandSurface" where
  "inform_client_of_window_state connection new_window_state this =
     (if WindowState_eq new_window_state (cached_state this) then ([], this)
      else
        (let this' = this\<lparr>cached_state := new_window_state\<rparr>;
             wm_state_value =
               (if withdrawn new_window_state then WITHDRAWN
                else if minimized new_window_state then ICONIC
                else NORMAL);
             wm_state_properties = [WmState_value wm_state_value, XCB_WINDOW_NONE];
             net_wm_states =
               (if minimized new_window_state then [net_wm_state_hidden connection] else []) @
               (if maximized new_window_state
                then [net_wm_state_maximized_horz connection,
                      net_wm_state_maximized_vert connection]
                else []) @
               (if fullscreen new_window_state then [net_wm_state_fullscreen connection]
                else [])
         in ([SetProperty XCBType_WM_STATE (window this') (wm_state connection)
                wm_state_properties,
              (if withdrawn new_window_state
               then DeleteProperty (window this') (net_wm_state connection)
               else SetProperty XCBType_ATOM (window this') (net_wm_state connection)
                      net_wm_states),
              Flush],
             this')))"

text \<open>
  \<^verbatim>\<open>request_scene_surface_state\<close>: a modification of the scene surface, when there is
  one and its state differs.
\<close>

definition request_scene_surface_state ::
  "MirWindowState \<Rightarrow> XWaylandSurface \<Rightarrow> effect list \<times> XWaylandSurface" where
  "request_scene_surface_state new_state this =
     (case weak_scene_surface this of
        Some scene_surface \<Rightarrow>
          (if surface_state scene_surface \<noteq> new_state
           then ([ModifySurface scene_surface (empty_spec\<lparr>spec_state := Some new_state\<rparr>)],
                 this)
           else ([], this))
      | None \<Rightarrow> ([], this))"

subsection \<open>Client messages\<close>

text \<open>The payload \<^verbatim>\<open>uint32_t const (&data)[5]\<close>.\<close>

datatype client_message_data =
  ClientMessageData (data0: "32 word") (data1: "32 word") (data2: "32 word")
    (data3: "32 word") (data4: "32 word")

text \<open>
  \<^verbatim>\<open>net_wm_state_client_message\<close>. \<open>prop_ptr\<close> is what \<^verbatim>\<open>bool* prop_ptr\<close> points at:
  the local \<^verbatim>\<open>nil\<close>, initialised to false for each property, or a flag of the new
  window state. The action is a \<^verbatim>\<open>uint32_t\<close> cast to an enumeration with the values
  REMOVE = 0, ADD = 1, TOGGLE = 2; any other value matches no \<^verbatim>\<open>case\<close>.
\<close>

datatype prop_ptr = ptr_nil | ptr_minimized | ptr_maximized | ptr_fullscreen

fun deref :: "prop_ptr \<Rightarrow> bool \<times> WindowState \<Rightarrow> bool" where
  "deref ptr_nil (nil, s) = nil"
| "deref ptr_minimized (nil, s) = minimized s"
| "deref ptr_maximized (nil, s) = maximized s"
| "deref ptr_fullscreen (nil, s) = fullscreen s"

fun assign :: "prop_ptr \<Rightarrow> bool \<Rightarrow> bool \<times> WindowState \<Rightarrow> bool \<times> WindowState" where
  "assign ptr_nil v (nil, s) = (v, s)"
| "assign ptr_minimized v (nil, s) = (nil, s\<lparr>minimized := v\<rparr>)"
| "assign ptr_maximized v (nil, s) = (nil, s\<lparr>maximized := v\<rparr>)"
| "assign ptr_fullscreen v (nil, s) = (nil, s\<lparr>fullscreen := v\<rparr>)"

definition Action_REMOVE :: "32 word" where "Action_REMOVE = 0"
definition Action_ADD :: "32 word" where "Action_ADD = 1"
definition Action_TOGGLE :: "32 word" where "Action_TOGGLE = 2"

definition select_prop_ptr :: "XCBConnection \<Rightarrow> xcb_atom_t \<Rightarrow> prop_ptr" where
  "select_prop_ptr connection property =
     (if property = net_wm_state_hidden connection then ptr_minimized
      else if property = net_wm_state_maximized_horz connection then ptr_maximized
      else if property = net_wm_state_fullscreen connection then ptr_fullscreen
      else ptr_nil)"

definition apply_action ::
  "32 word \<Rightarrow> prop_ptr \<Rightarrow> bool \<times> WindowState \<Rightarrow> bool \<times> WindowState" where
  "apply_action action ptr ns =
     (if action = Action_REMOVE then assign ptr False ns
      else if action = Action_ADD then assign ptr True ns
      else if action = Action_TOGGLE then assign ptr (\<not> deref ptr ns) ns
      else ns)"

text \<open>The body of the loop over the two properties; a zero property is skipped.\<close>

definition update_property ::
  "XCBConnection \<Rightarrow> 32 word \<Rightarrow> xcb_atom_t \<Rightarrow> WindowState \<Rightarrow> WindowState" where
  "update_property connection action property new_window_state =
     (if property = 0 then new_window_state
      else snd (apply_action action (select_prop_ptr connection property)
                  (False, new_window_state)))"

definition net_wm_state_client_message ::
  "XCBConnection \<Rightarrow> client_message_data \<Rightarrow> XWaylandSurface \<Rightarrow>
   effect list \<times> XWaylandSurface" where
  "net_wm_state_client_message connection data this =
     (let action = data0 data;
          properties = [data1 data, data2 data];
          new_window_state = fold (update_property connection action) properties
                               (cached_state this)
      in and_then (inform_client_of_window_state connection new_window_state this)
           (request_scene_surface_state (mir_window_state new_window_state)))"

text \<open>
  \<^verbatim>\<open>wm_change_state_client_message\<close>: the requested state is a \<^verbatim>\<open>uint32_t\<close> cast to
  \<^verbatim>\<open>WmState\<close>; the \<^verbatim>\<open>default\<close> branch throws a \<^verbatim>\<open>std::runtime_error\<close> that
  names the value.
\<close>

definition wm_change_state_client_message ::
  "XCBConnection \<Rightarrow> client_message_data \<Rightarrow> XWaylandSurface \<Rightarrow>
   completion \<times> effect list \<times> XWaylandSurface" where
  "wm_change_state_client_message connection data this =
     (let requested_state = data0 data;
          new_window_state = cached_state this
      in if requested_state = WmState_value NORMAL
         then (Returned,
               and_then
                 (inform_client_of_window_state connection
                    (new_window_state\<lparr>minimized := False\<rparr>) this)
                 (request_scene_surface_state
                    (mir_window_state (new_window_state\<lparr>minimized := False\<rparr>))))
         else if requested_state = WmState_value ICONIC
         then (Returned,
               and_then
                 (inform_client_of_window_state connection
                    (new_window_state\<lparr>minimized := True\<rparr>) this)
                 (request_scene_surface_state
                    (mir_window_state (new_window_state\<lparr>minimized := True\<rparr>))))
         else (Thrown (invalid_wm_change_state requested_state), [], this))"

subsection \<open>State changes reported by the compositor\<close>

text \<open>
  \<^verbatim>\<open>scene_surface_state_set\<close>. The condition of the source is kept as written:
  \<^verbatim>\<open>new_state == mir_window_state_minimized || new_state == mir_window_state_minimized\<close>.
\<close>

definition scene_surface_state_set ::
  "XCBConnection \<Rightarrow> MirWindowState \<Rightarrow> XWaylandSurface \<Rightarrow> effect list \<times> XWaylandSurface" where
  "scene_surface_state_set connection new_state this =
     (let state = updated_from (cached_state this) new_state
      in and_then (inform_client_of_window_state connection state this)
           (\<lambda>this'.
              (if new_state = mir_window_state_minimized \<or>
                  new_state = mir_window_state_minimized
               then [ConfigureWindow (window this') None None None
                       (Some XCB_STACK_MODE_BELOW)]
               else [],
               this')))"

subsection \<open>Configure requests\<close>

text \<open>
  The fields of \<^verbatim>\<open>xcb_configure_request_event_t\<close> that are read: a 16-bit mask,
  signed 16-bit coordinates (read with \<open>sint\<close>) and unsigned 16-bit extents.
\<close>

record xcb_configure_request_event_t =
  event_value_mask :: "16 word"
  event_x :: "16 word"
  event_y :: "16 word"
  event_width :: "16 word"
  event_height :: "16 word"

definition XCB_CONFIG_WINDOW_X :: "16 word" where "XCB_CONFIG_WINDOW_X = 1"
definition XCB_CONFIG_WINDOW_Y :: "16 word" where "XCB_CONFIG_WINDOW_Y = 2"
definition XCB_CONFIG_WINDOW_WIDTH :: "16 word" where "XCB_CONFIG_WINDOW_WIDTH = 4"
definition XCB_CONFIG_WINDOW_HEIGHT :: "16 word" where "XCB_CONFIG_WINDOW_HEIGHT = 8"

definition flagged :: "xcb_configure_request_event_t \<Rightarrow> 16 word \<Rightarrow> bool" where
  "flagged event config_bit = (event_value_mask event AND config_bit \<noteq> 0)"

text \<open>
  \<^verbatim>\<open>configure_request\<close>: with a scene surface the request becomes a modification of
  it (none when nothing changes); without one the legacy window is configured with the
  requested values, the cached ones filling what the mask leaves out.
\<close>

definition configure_request ::
  "xcb_configure_request_event_t \<Rightarrow> XWaylandSurface \<Rightarrow> effect list \<times> XWaylandSurface" where
  "configure_request event this =
     (case weak_scene_surface this of
        Some scene_surface \<Rightarrow>
          (let content_offset = surface_content_offset scene_surface;
               old_position = point_plus (surface_top_left scene_surface) content_offset;
               new_position =
                 \<lparr>point_x = (if flagged event XCB_CONFIG_WINDOW_X then sint (event_x event)
                              else point_x old_position),
                  point_y = (if flagged event XCB_CONFIG_WINDOW_Y then sint (event_y event)
                              else point_y old_position)\<rparr>;
               old_size = surface_content_size scene_surface;
               new_size =
                 \<lparr>size_width = (if flagged event XCB_CONFIG_WINDOW_WIDTH
                                 then uint (event_width event) else size_width old_size),
                  size_height = (if flagged event XCB_CONFIG_WINDOW_HEIGHT
                                  then uint (event_height event) else size_height old_size)\<rparr>;
               mods1 =
                 (if old_position \<noteq> new_position
                  then set_position (surface_parent scene_surface)
                         (point_minus new_position content_offset) empty_spec
                  else empty_spec);
               mods2 =
                 (if old_size \<noteq> new_size
                  then mods1\<lparr>spec_width := Some (size_width new_size),
                             spec_height := Some (size_height new_size)\<rparr>
                  else mods1)
           in (if \<not> is_empty mods2 then [ModifySurface scene_surface mods2] else [], this))
      | None \<Rightarrow>
          (let top_left =
                 \<lparr>point_x = (if flagged event XCB_CONFIG_WINDOW_X then sint (event_x event)
                              else point_x (cached_top_left this)),
                  point_y = (if flagged event XCB_CONFIG_WINDOW_Y then sint (event_y event)
                              else point_y (cached_top_left this))\<rparr>;
               size =
                 \<lparr>size_width = (if flagged event XCB_CONFIG_WINDOW_WIDTH
                                 then uint (event_width event)
                                 else size_width (cached_size this)),
                  size_height = (if flagged event XCB_CONFIG_WINDOW_HEIGHT
                                  then uint (event_height event)
                                  else size_height (cached_size this))\<rparr>
           in ([ConfigureWindow (window this) (Some top_left) (Some size) None None, Flush],
               this)))"

subsection \<open>The pending specification and the transient-for resolver\<close>

text \<open>
  \<^verbatim>\<open>pending_spec(lock)\<close> returns a reference to the pending specification, creating
  an empty one first when there is none; \<open>pending_spec_update f\<close> is a write \<open>f\<close>
  through that reference.
\<close>

definition pending_spec_update ::
  "(SurfaceSpecification \<Rightarrow> SurfaceSpecification) \<Rightarrow> XWaylandSurface \<Rightarrow> XWaylandSurface" where
  "pending_spec_update f this =
     (case nullable_pending_spec this of
        None \<Rightarrow> this\<lparr>nullable_pending_spec := Some (f empty_spec)\<rparr>
      | Some spec \<Rightarrow> this\<lparr>nullable_pending_spec := Some (f spec)\<rparr>)"

definition consume_pending_spec ::
  "XWaylandSurface \<Rightarrow> SurfaceSpecification option \<times> XWaylandSurface" where
  "consume_pending_spec this =
     (case nullable_pending_spec this of
        Some spec \<Rightarrow> (Some spec, this\<lparr>nullable_pending_spec := None\<rparr>)
      | None \<Rightarrow> (None, this))"

text \<open>
  What the bridge asks of the window manager: the bridge of a window, if it has one, and
  the focused window, if there is one.
\<close>

record XWaylandWM =
  get_wm_surface :: "xcb_window_t \<Rightarrow> XWaylandSurface option"
  get_focused_window :: "xcb_window_t option"

text \<open>The lambda \<^verbatim>\<open>get_scene_surface_from\<close> of \<^verbatim>\<open>is_transient_for\<close>.\<close>

definition get_scene_surface_from :: "XWaylandWM \<Rightarrow> xcb_window_t \<Rightarrow> Surface option" where
  "get_scene_surface_from xwm xcb_window =
     (case get_wm_surface xwm xcb_window of
        Some xwayland_surface \<Rightarrow> weak_scene_surface xwayland_surface
      | None \<Rightarrow> None)"

text \<open>
  \<^verbatim>\<open>is_transient_for\<close>: the parent is looked up, with the focused window as the
  fallback, and written with the position into the pending specification. No call is
  made on the connection or on the shell.
\<close>

definition is_transient_for ::
  "XWaylandWM \<Rightarrow> xcb_window_t \<Rightarrow> XWaylandSurface \<Rightarrow> effect list \<times> XWaylandSurface" where
  "is_transient_for xwm transient_for this =
     (let parent_scene_surface =
            (if transient_for \<noteq> XCB_WINDOW_NONE
             then
               (case get_scene_surface_from xwm transient_for of
                  Some scene_surface \<Rightarrow> Some scene_surface
                | None \<Rightarrow>
                    (case get_focused_window xwm of
                       Some focused_window \<Rightarrow> get_scene_surface_from xwm focused_window
                     | None \<Rightarrow> None))
             else None);
          this1 = pending_spec_update (\<lambda>spec. spec\<lparr>spec_parent := Some parent_scene_surface\<rparr>)
                    this;
          this2 = pending_spec_update (set_position parent_scene_surface (cached_top_left this1))
                    this1
      in ([], this2))"

subsection \<open>Attaching the wl surface\<close>

text \<open>
  The replies to the property reads, in the order in which the reply functions run (the
  order of the handler table, whose declaration is outside this file). Each reply runs
  the handler that the constructor installs for its property: the error handler of a
  string property is the default, which does nothing.
\<close>

datatype property_reply =
    reply_wm_class string
  | reply_wm_name string
  | reply_net_wm_name string
  | reply_wm_transient_for xcb_window_t
  | error_wm_transient_for
  | reply_wm_protocols "xcb_atom_t list"
  | error_wm_protocols
  | error_string_property

fun apply_reply :: "XWaylandWM \<Rightarrow> property_reply \<Rightarrow> XWaylandSurface \<Rightarrow> XWaylandSurface" where
  "apply_reply xwm (reply_wm_class v) this =
     pending_spec_update (\<lambda>spec. spec\<lparr>spec_application_id := Some v\<rparr>) this"
| "apply_reply xwm (reply_wm_name v) this =
     pending_spec_update (\<lambda>spec. spec\<lparr>spec_name := Some v\<rparr>) this"
| "apply_reply xwm (reply_net_wm_name v) this =
     pending_spec_update (\<lambda>spec. spec\<lparr>spec_name := Some v\<rparr>) this"
| "apply_reply xwm (reply_wm_transient_for v) this = snd (is_transient_for xwm v this)"
| "apply_reply xwm error_wm_transient_for this =
     snd (is_transient_for xwm XCB_WINDOW_NONE this)"
| "apply_reply xwm (reply_wm_protocols v) this =
     this\<lparr>cached_supported_wm_protocols := set v\<rparr>"
| "apply_reply xwm error_wm_protocols this = this\<lparr>cached_supported_wm_protocols := {}\<rparr>"
| "apply_reply xwm error_string_property this = this"

text \<open>\<^verbatim>\<open>operator bool\<close> of an optional, and a non-null result of \<^verbatim>\<open>lock()\<close>.\<close>

fun is_set :: "'a option \<Rightarrow> bool" where
  "is_set None = False"
| "is_set (Some v) = True"

text \<open>
  \<^verbatim>\<open>attach_wl_surface\<close>. \<open>session\<close> is what \<^verbatim>\<open>get_session\<close> returns for the wl
  surface (\<open>None\<close> for null), \<open>replies\<close> the replies to the property reads and
  \<open>surface\<close> the scene surface that the shell creates.
\<close>

definition attach_wl_surface ::
  "XCBConnection \<Rightarrow> XWaylandWM \<Rightarrow> WlSurface \<Rightarrow> Session option \<Rightarrow> property_reply list \<Rightarrow>
   Surface \<Rightarrow> XWaylandSurface \<Rightarrow> completion \<times> effect list \<times> XWaylandSurface" where
  "attach_wl_surface connection xwm wl_surface session replies surface this =
     (let observer = XWaylandSurfaceObserver wl_surface
      in if is_set (surface_observer this) \<or> is_set (weak_session this) \<or>
            is_set (weak_scene_surface this)
         then (Thrown set_wl_surface_called_multiple_times, [], this)
         else
           (let this1 = this\<lparr>surface_observer := Some observer, weak_session := session\<rparr>;
                state = (cached_state this1)\<lparr>withdrawn := False\<rparr>;
                params =
                  \<lparr>params_size = cached_size this1,
                   params_top_left = cached_top_left this1,
                   params_type = mir_window_type_freestyle,
                   params_state = mir_window_state state,
                   params_server_side_decorated = (\<not> cached_override_redirect this1)\<rparr>;
                this2 = fold (apply_reply xwm) replies this1;
                consumed = consume_pending_spec this2;
                informed = inform_client_of_window_state connection state (snd consumed);
                this3 = snd informed
            in (Returned,
                [CreateSurface session params (fst consumed) observer] @
                fst informed @
                [ConfigureWindow (window this3)
                   (Some (point_plus (surface_top_left surface)
                            (surface_content_offset surface)))
                   (Some (surface_content_size surface)) None (Some XCB_STACK_MODE_ABOVE)],
                this3\<lparr>weak_scene_surface := Some surface\<rparr>)))"

subsection \<open>Concrete inputs\<close>

definition example_connection :: XCBConnection where
  "example_connection =
     \<lparr>wm_state = 300, net_wm_state = 301, net_wm_state_hidden = 302,
      net_wm_state_maximized_horz = 303, net_wm_state_maximized_vert = 304,
      net_wm_state_fullscreen = 305\<rparr>"

definition restored_state :: WindowState where
  "restored_state = \<lparr>withdrawn = False, minimized = False, maximized = False, fullscreen = False\<rparr>"

text \<open>A mapped, restored window at (10, 20) of size 300x200 that is not attached.\<close>

definition example_bridge :: XWaylandSurface where
  "example_bridge =
     \<lparr>window = 42, cached_override_redirect = False,
      cached_top_left = \<lparr>point_x = 10, point_y = 20\<rparr>,
      cached_size = \<lparr>size_width = 300, size_height = 200\<rparr>,
      cached_supported_wm_protocols = {},
      cached_state = restored_state,
      nullable_pending_spec = None, surface_observer = None, weak_session = None,
      weak_scene_surface = None\<rparr>"

definition example_surface :: Surface where
  "example_surface =
     Surface 7 \<lparr>point_x = 100, point_y = 50\<rparr> \<lparr>displacement_dx = 0, displacement_dy = 24\<rparr>
       \<lparr>size_width = 640, size_height = 480\<rparr> mir_window_state_restored None"

text \<open>
  A window manager that knows the windows 43, whose bridge has no scene surface, and 44,
  whose bridge has one; 44 is focused.
\<close>

definition example_wm :: XWaylandWM where
  "example_wm =
     \<lparr>get_wm_surface =
        (\<lambda>w. if w = 43 then Some (example_bridge\<lparr>window := 43\<rparr>)
             else if w = 44
             then Some (example_bridge\<lparr>window := 44, weak_scene_surface := Some example_surface\<rparr>)
             else None),
      get_focused_window = Some 44\<rparr>"

definition example_event :: xcb_configure_request_event_t where
  "example_event =
     \<lparr>event_value_mask = 1, event_x = 50, event_y = 0, event_width = 0, event_height = 0\<rparr>"

subsection \<open>Observing the effects\<close>

text \<open>A configure call that lowers the window: stack mode BELOW.\<close>

fun lowers_window :: "effect \<Rightarrow> bool" where
  "lowers_window (ConfigureWindow w p s sibling (Some XCB_STACK_MODE_BELOW)) = True"
| "lowers_window e = False"

section \<open>Properties of the window state\<close>

lemma WindowState_eq_iff: "WindowState_eq a b \<longleftrightarrow> a = b"
  by (auto simp: WindowState_eq_def)

text \<open>
  C1. For each enumerator of the native window state, \<open>updated_from\<close> returns the
  receiver with withdrawn cleared and the flags of the table: hidden and minimized set
  minimized and keep maximized and fullscreen; fullscreen clears minimized, sets
  fullscreen and keeps maximized; the three maximized states clear minimized, set
  maximized and clear fullscreen; restored, unknown and attached clear all three. The
  count sentinel \<open>mir_window_states\<close>, which the table does not list, changes no flag
  besides withdrawn. The enumerators listed are all there are, so the function is
  defined on every native state, and \<open>operator==\<close> is equality of the four flags.
\<close>

theorem updated_from_table:
  "updated_from s mir_window_state_hidden =
     \<lparr>withdrawn = False, minimized = True, maximized = maximized s, fullscreen = fullscreen s\<rparr> \<and>
   updated_from s mir_window_state_minimized =
     \<lparr>withdrawn = False, minimized = True, maximized = maximized s, fullscreen = fullscreen s\<rparr> \<and>
   updated_from s mir_window_state_fullscreen =
     \<lparr>withdrawn = False, minimized = False, maximized = maximized s, fullscreen = True\<rparr> \<and>
   updated_from s mir_window_state_maximized =
     \<lparr>withdrawn = False, minimized = False, maximized = True, fullscreen = False\<rparr> \<and>
   updated_from s mir_window_state_vertmaximized =
     \<lparr>withdrawn = False, minimized = False, maximized = True, fullscreen = False\<rparr> \<and>
   updated_from s mir_window_state_horizmaximized =
     \<lparr>withdrawn = False, minimized = False, maximized = True, fullscreen = False\<rparr> \<and>
   updated_from s mir_window_state_restored =
     \<lparr>withdrawn = False, minimized = False, maximized = False, fullscreen = False\<rparr> \<and>
   updated_from s mir_window_state_unknown =
     \<lparr>withdrawn = False, minimized = False, maximized = False, fullscreen = False\<rparr> \<and>
   updated_from s mir_window_state_attached =
     \<lparr>withdrawn = False, minimized = False, maximized = False, fullscreen = False\<rparr> \<and>
   updated_from s mir_window_states =
     \<lparr>withdrawn = False, minimized = minimized s, maximized = maximized s,
      fullscreen = fullscreen s\<rparr> \<and>
   n \<in> {mir_window_state_hidden, mir_window_state_minimized, mir_window_state_fullscreen,
        mir_window_state_maximized, mir_window_state_vertmaximized,
        mir_window_state_horizmaximized, mir_window_state_restored,
        mir_window_state_unknown, mir_window_state_attached, mir_window_states} \<and>
   (WindowState_eq a b \<longleftrightarrow>
      withdrawn a = withdrawn b \<and> minimized a = minimized b \<and>
      maximized a = maximized b \<and> fullscreen a = fullscreen b) \<and>
   (WindowState_eq a b \<longleftrightarrow> a = b)"
proof -
  have all_states: "n \<in> {mir_window_state_hidden, mir_window_state_minimized,
        mir_window_state_fullscreen, mir_window_state_maximized,
        mir_window_state_vertmaximized, mir_window_state_horizmaximized,
        mir_window_state_restored, mir_window_state_unknown, mir_window_state_attached,
        mir_window_states}"
    by (cases n) simp_all
  have eq_flags: "WindowState_eq a b \<longleftrightarrow>
      withdrawn a = withdrawn b \<and> minimized a = minimized b \<and>
      maximized a = maximized b \<and> fullscreen a = fullscreen b"
    by (simp add: WindowState_eq_def)
  show ?thesis
    using all_states eq_flags by (cases s) (simp add: WindowState_eq_iff)
qed

text \<open>
  C2. Round trip: for every window state \<open>s\<close>, \<open>updated_from\<close> applied to the native
  state that \<open>mir_window_state\<close> gives for \<open>s\<close> keeps the minimized, maximized and
  fullscreen flags of \<open>s\<close> and has withdrawn false.
\<close>

theorem updated_from_mir_window_state_round_trip:
  "minimized (updated_from s (mir_window_state s)) = minimized s \<and>
   maximized (updated_from s (mir_window_state s)) = maximized s \<and>
   fullscreen (updated_from s (mir_window_state s)) = fullscreen s \<and>
   withdrawn (updated_from s (mir_window_state s)) = False"
  by (simp add: mir_window_state_def)

section \<open>Pushing the state to the legacy client\<close>

lemma fst_and_then: "fst (and_then r f) = fst r @ fst (f (snd r))"
  by (cases r, cases "f (snd r)") (simp add: and_then_def)

lemma snd_and_then: "snd (and_then r f) = snd (f (snd r))"
  by (cases r, cases "f (snd r)") (simp add: and_then_def)

lemma snd_request_scene_surface_state: "snd (request_scene_surface_state n this) = this"
  by (simp add: request_scene_surface_state_def split: option.splits)

lemma snd_inform_client_of_window_state:
  "snd (inform_client_of_window_state c v this) = this\<lparr>cached_state := v\<rparr>"
proof (cases "WindowState_eq v (cached_state this)")
  case True
  then have "cached_state this = v" by (simp add: WindowState_eq_iff)
  then have "this\<lparr>cached_state := v\<rparr> = this" by simp
  with True show ?thesis by (simp add: inform_client_of_window_state_def)
next
  case False
  then show ?thesis by (simp add: inform_client_of_window_state_def Let_def)
qed

text \<open>
  C3. \<open>inform_client_of_window_state\<close> is idempotent by equality. Called with a state
  equal to the cached one it writes nothing, does not flush and returns the bridge as it
  was. Otherwise it stores the new state and issues, in this order, the WM_STATE write
  (WITHDRAWN, ICONIC or NORMAL, with no icon window), the _NET_WM_STATE write (the
  property deleted when withdrawn, else set to the atoms of the flags), and the flush. A
  second call with the same value right after the first is always the silent one, so the
  two calls together issue what the first one alone issues: one set of writes when the
  value differs from the state cached before.
\<close>

theorem inform_client_of_window_state_idempotent:
  "(WindowState_eq v (cached_state this) \<longrightarrow>
      inform_client_of_window_state c v this = ([], this)) \<and>
   (\<not> WindowState_eq v (cached_state this) \<longrightarrow>
      inform_client_of_window_state c v this =
        ([SetProperty XCBType_WM_STATE (window this) (wm_state c)
            [if withdrawn v then 0 else if minimized v then 3 else 1, 0],
          if withdrawn v then DeleteProperty (window this) (net_wm_state c)
          else SetProperty XCBType_ATOM (window this) (net_wm_state c)
                 ((if minimized v then [net_wm_state_hidden c] else []) @
                  (if maximized v
                   then [net_wm_state_maximized_horz c, net_wm_state_maximized_vert c]
                   else []) @
                  (if fullscreen v then [net_wm_state_fullscreen c] else [])),
          Flush],
         this\<lparr>cached_state := v\<rparr>)) \<and>
   inform_client_of_window_state c v (snd (inform_client_of_window_state c v this)) =
     ([], snd (inform_client_of_window_state c v this)) \<and>
   fst (and_then (inform_client_of_window_state c v this)
          (inform_client_of_window_state c v)) =
     fst (inform_client_of_window_state c v this)"
proof -
  have same: "inform_client_of_window_state c v t = ([], t)"
    if "WindowState_eq v (cached_state t)" for t
    using that by (simp add: inform_client_of_window_state_def)
  have cached_after: "WindowState_eq v (cached_state (snd (inform_client_of_window_state c v this)))"
    by (simp add: inform_client_of_window_state_def WindowState_eq_def Let_def)
  have differs: "inform_client_of_window_state c v this =
        ([SetProperty XCBType_WM_STATE (window this) (wm_state c)
            [if withdrawn v then 0 else if minimized v then 3 else 1, 0],
          if withdrawn v then DeleteProperty (window this) (net_wm_state c)
          else SetProperty XCBType_ATOM (window this) (net_wm_state c)
                 ((if minimized v then [net_wm_state_hidden c] else []) @
                  (if maximized v
                   then [net_wm_state_maximized_horz c, net_wm_state_maximized_vert c]
                   else []) @
                  (if fullscreen v then [net_wm_state_fullscreen c] else [])),
          Flush],
         this\<lparr>cached_state := v\<rparr>)"
    if "\<not> WindowState_eq v (cached_state this)"
    using that by (simp add: inform_client_of_window_state_def XCB_WINDOW_NONE_def Let_def)
  have twice: "inform_client_of_window_state c v (snd (inform_client_of_window_state c v this)) =
     ([], snd (inform_client_of_window_state c v this))"
    using cached_after by (rule same)
  have effects: "fst (and_then (inform_client_of_window_state c v this)
          (inform_client_of_window_state c v)) =
     fst (inform_client_of_window_state c v this)"
    using twice by (simp add: fst_and_then)
  show ?thesis
    using same [of this] differs twice effects by blast
qed

theorem inform_client_of_window_state_idempotent_witness:
  "\<not> WindowState_eq (restored_state\<lparr>fullscreen := True\<rparr>) (cached_state example_bridge) \<and>
   inform_client_of_window_state example_connection (restored_state\<lparr>fullscreen := True\<rparr>)
     example_bridge =
     ([SetProperty XCBType_WM_STATE 42 300 [1, 0], SetProperty XCBType_ATOM 42 301 [305],
       Flush],
      example_bridge\<lparr>cached_state := restored_state\<lparr>fullscreen := True\<rparr>\<rparr>) \<and>
   WindowState_eq restored_state (cached_state example_bridge) \<and>
   inform_client_of_window_state example_connection restored_state example_bridge =
     ([], example_bridge)"
  using inform_client_of_window_state_idempotent
          [where v = "restored_state\<lparr>fullscreen := True\<rparr>" and this = example_bridge
             and c = example_connection]
        inform_client_of_window_state_idempotent
          [where v = restored_state and this = example_bridge and c = example_connection]
  by (simp add: example_bridge_def example_connection_def restored_state_def
      WindowState_eq_def)

section \<open>Client messages\<close>

text \<open>
  C4. A WM_CHANGE_STATE message whose requested state is neither NORMAL (1) nor ICONIC (3)
  faults: the operation throws, issues no call on the connection or the shell, and
  leaves the bridge, its cached window state included, as it was. For NORMAL it returns
  with minimized cleared in the cached state, for ICONIC with minimized set.
\<close>

theorem wm_change_state_client_message_valid_states:
  "(data0 d \<noteq> 1 \<and> data0 d \<noteq> 3 \<longrightarrow>
      wm_change_state_client_message c d this =
        (Thrown (invalid_wm_change_state (data0 d)), [], this)) \<and>
   (data0 d = 1 \<longrightarrow>
      fst (wm_change_state_client_message c d this) = Returned \<and>
      cached_state (snd (snd (wm_change_state_client_message c d this))) =
        (cached_state this)\<lparr>minimized := False\<rparr>) \<and>
   (data0 d = 3 \<longrightarrow>
      fst (wm_change_state_client_message c d this) = Returned \<and>
      cached_state (snd (snd (wm_change_state_client_message c d this))) =
        (cached_state this)\<lparr>minimized := True\<rparr>)"
  by (simp add: wm_change_state_client_message_def Let_def snd_and_then
      snd_request_scene_surface_state snd_inform_client_of_window_state)

theorem wm_change_state_client_message_valid_states_witness:
  "data0 (ClientMessageData 0 0 0 0 0) \<noteq> 1 \<and> data0 (ClientMessageData 0 0 0 0 0) \<noteq> 3 \<and>
   wm_change_state_client_message example_connection (ClientMessageData 0 0 0 0 0)
     example_bridge = (Thrown (invalid_wm_change_state 0), [], example_bridge) \<and>
   cached_state (snd (snd (wm_change_state_client_message example_connection
     (ClientMessageData 3 0 0 0 0) example_bridge))) = restored_state\<lparr>minimized := True\<rparr>"
  using wm_change_state_client_message_valid_states
          [where d = "ClientMessageData 0 0 0 0 0" and c = example_connection
             and this = example_bridge]
        wm_change_state_client_message_valid_states
          [where d = "ClientMessageData 3 0 0 0 0" and c = example_connection
             and this = example_bridge]
  by (simp add: example_bridge_def)

lemma cached_state_net_wm_state_client_message:
  "cached_state (snd (net_wm_state_client_message c d this)) =
     update_property c (data0 d) (data2 d) (update_property c (data0 d) (data1 d)
       (cached_state this))"
  by (simp add: net_wm_state_client_message_def Let_def snd_and_then
      snd_request_scene_surface_state snd_inform_client_of_window_state)

lemma update_property_toggle_twice:
  "update_property c Action_TOGGLE p (update_property c Action_TOGGLE q
     (update_property c Action_TOGGLE p (update_property c Action_TOGGLE q s))) = s"
  by (simp add: update_property_def apply_action_def select_prop_ptr_def
      Action_TOGGLE_def Action_ADD_def Action_REMOVE_def)

text \<open>
  C5. With a fullscreen atom that is not zero and differs from the hidden and the
  maximized-horizontal atoms, a _NET_WM_STATE message with action ADD and the fullscreen
  property alone, received while minimized, maximized and fullscreen are all clear,
  leaves a cached state with fullscreen set and the other flags as they were. For any
  bridge and any two property slots, two successive TOGGLE messages with the same
  properties restore the cached state.
\<close>

theorem net_wm_state_add_fullscreen_toggle_twice:
  "(net_wm_state_fullscreen c \<noteq> 0 \<and>
    net_wm_state_fullscreen c \<noteq> net_wm_state_hidden c \<and>
    net_wm_state_fullscreen c \<noteq> net_wm_state_maximized_horz c \<and>
    minimized (cached_state this) = False \<and> maximized (cached_state this) = False \<and>
    fullscreen (cached_state this) = False \<longrightarrow>
      cached_state (snd (net_wm_state_client_message c
        (ClientMessageData Action_ADD (net_wm_state_fullscreen c) 0 d3 d4) this)) =
        \<lparr>withdrawn = withdrawn (cached_state this), minimized = False, maximized = False,
         fullscreen = True\<rparr>) \<and>
   cached_state (snd (net_wm_state_client_message c (ClientMessageData Action_TOGGLE p q e3 e4)
      (snd (net_wm_state_client_message c (ClientMessageData Action_TOGGLE p q d3 d4) this)))) =
     cached_state this"
proof -
  have toggle: "cached_state (snd (net_wm_state_client_message c
      (ClientMessageData Action_TOGGLE p q e3 e4)
      (snd (net_wm_state_client_message c (ClientMessageData Action_TOGGLE p q d3 d4) this)))) =
     cached_state this"
    by (simp only: cached_state_net_wm_state_client_message client_message_data.sel
        update_property_toggle_twice)
  have add: "cached_state (snd (net_wm_state_client_message c
        (ClientMessageData Action_ADD (net_wm_state_fullscreen c) 0 d3 d4) this)) =
        \<lparr>withdrawn = withdrawn (cached_state this), minimized = False, maximized = False,
         fullscreen = True\<rparr>"
    if "net_wm_state_fullscreen c \<noteq> 0"
      "net_wm_state_fullscreen c \<noteq> net_wm_state_hidden c"
      "net_wm_state_fullscreen c \<noteq> net_wm_state_maximized_horz c"
      "minimized (cached_state this) = False" "maximized (cached_state this) = False"
      "fullscreen (cached_state this) = False"
    using that
    by (cases "cached_state this")
       (simp add: cached_state_net_wm_state_client_message update_property_def
          apply_action_def select_prop_ptr_def Action_ADD_def Action_REMOVE_def)
  show ?thesis using toggle add by blast
qed

theorem net_wm_state_add_fullscreen_toggle_twice_witness:
  "net_wm_state_fullscreen example_connection \<noteq> 0 \<and>
   net_wm_state_fullscreen example_connection \<noteq> net_wm_state_hidden example_connection \<and>
   net_wm_state_fullscreen example_connection \<noteq>
     net_wm_state_maximized_horz example_connection \<and>
   minimized (cached_state example_bridge) = False \<and>
   maximized (cached_state example_bridge) = False \<and>
   fullscreen (cached_state example_bridge) = False \<and>
   cached_state (snd (net_wm_state_client_message example_connection
     (ClientMessageData Action_ADD 305 0 1 0) example_bridge)) =
     \<lparr>withdrawn = False, minimized = False, maximized = False, fullscreen = True\<rparr>"
  using net_wm_state_add_fullscreen_toggle_twice
          [where c = example_connection and this = example_bridge and ?d3.0 = 1
             and ?d4.0 = 0]
  by (simp add: example_bridge_def example_connection_def restored_state_def)

text \<open>
  C10. A property that is none of the hidden, maximized-horizontal and fullscreen atoms
  selects the local dummy flag, so applying the action to it leaves the window state
  alone: the message has the same effects and result as the one with a zero in that
  slot, whichever slot it is, and alone it leaves the cached state unchanged. A zero
  slot is skipped: with a zero second slot the cached state is the one computed from
  the first property. The operation has no throwing branch.
\<close>

theorem net_wm_state_unrecognized_property_ignored:
  "(p \<noteq> net_wm_state_hidden c \<and> p \<noteq> net_wm_state_maximized_horz c \<and>
    p \<noteq> net_wm_state_fullscreen c \<longrightarrow>
      select_prop_ptr c p = ptr_nil \<and>
      snd (apply_action a ptr_nil (False, s)) = s \<and>
      update_property c a p s = s \<and>
      net_wm_state_client_message c (ClientMessageData a p q d3 d4) this =
        net_wm_state_client_message c (ClientMessageData a 0 q d3 d4) this \<and>
      net_wm_state_client_message c (ClientMessageData a q p d3 d4) this =
        net_wm_state_client_message c (ClientMessageData a q 0 d3 d4) this \<and>
      cached_state (snd (net_wm_state_client_message c (ClientMessageData a p 0 d3 d4) this)) =
        cached_state this) \<and>
   update_property c a 0 s = s \<and>
   cached_state (snd (net_wm_state_client_message c (ClientMessageData a q 0 d3 d4) this)) =
     update_property c a q (cached_state this)"
proof -
  have nil: "snd (apply_action a ptr_nil (False, s')) = s'" for s'
    by (simp add: apply_action_def)
  have zero: "update_property c a 0 s' = s'" for s'
    by (simp add: update_property_def)
  have unknown: "update_property c a p s' = s'"
    if "p \<noteq> net_wm_state_hidden c" "p \<noteq> net_wm_state_maximized_horz c"
       "p \<noteq> net_wm_state_fullscreen c" for s'
    using that nil by (simp add: update_property_def select_prop_ptr_def)
  have ptr: "select_prop_ptr c p = ptr_nil"
    if "p \<noteq> net_wm_state_hidden c" "p \<noteq> net_wm_state_maximized_horz c"
       "p \<noteq> net_wm_state_fullscreen c"
    using that by (simp add: select_prop_ptr_def)
  have first: "net_wm_state_client_message c (ClientMessageData a p q d3 d4) this =
        net_wm_state_client_message c (ClientMessageData a 0 q d3 d4) this"
    if "p \<noteq> net_wm_state_hidden c" "p \<noteq> net_wm_state_maximized_horz c"
       "p \<noteq> net_wm_state_fullscreen c"
    using that by (simp add: net_wm_state_client_message_def unknown zero)
  have second: "net_wm_state_client_message c (ClientMessageData a q p d3 d4) this =
        net_wm_state_client_message c (ClientMessageData a q 0 d3 d4) this"
    if "p \<noteq> net_wm_state_hidden c" "p \<noteq> net_wm_state_maximized_horz c"
       "p \<noteq> net_wm_state_fullscreen c"
    using that by (simp add: net_wm_state_client_message_def unknown zero)
  have alone: "cached_state (snd (net_wm_state_client_message c
        (ClientMessageData a q 0 d3 d4) this)) = update_property c a q (cached_state this)"
    by (simp add: cached_state_net_wm_state_client_message zero)
  have only: "cached_state (snd (net_wm_state_client_message c
        (ClientMessageData a p 0 d3 d4) this)) = cached_state this"
    if "p \<noteq> net_wm_state_hidden c" "p \<noteq> net_wm_state_maximized_horz c"
       "p \<noteq> net_wm_state_fullscreen c"
    using that by (simp add: cached_state_net_wm_state_client_message unknown zero)
  show ?thesis
    using nil [of s] zero [of s] unknown [of s] ptr first second alone only by blast
qed

theorem net_wm_state_unrecognized_property_ignored_witness:
  "(999 :: 32 word) \<noteq> net_wm_state_hidden example_connection \<and>
   999 \<noteq> net_wm_state_maximized_horz example_connection \<and>
   999 \<noteq> net_wm_state_fullscreen example_connection \<and>
   net_wm_state_client_message example_connection
     (ClientMessageData Action_TOGGLE 302 999 0 0) example_bridge =
   net_wm_state_client_message example_connection
     (ClientMessageData Action_TOGGLE 302 0 0 0) example_bridge \<and>
   cached_state (snd (net_wm_state_client_message example_connection
     (ClientMessageData Action_TOGGLE 999 0 0 0) example_bridge)) = restored_state"
  using net_wm_state_unrecognized_property_ignored
          [where p = 999 and c = example_connection and a = Action_TOGGLE
             and s = restored_state and q = 302 and ?d3.0 = 0 and ?d4.0 = 0
             and this = example_bridge]
  by (simp add: example_connection_def example_bridge_def)

section \<open>State changes reported by the compositor\<close>

lemma lowers_window_inform:
  "filter lowers_window (fst (inform_client_of_window_state c v this)) = []"
  by (simp add: inform_client_of_window_state_def Let_def)

text \<open>
  C6. What \<open>scene_surface_state_set\<close> does with the hidden native state: the cached
  state becomes the one \<open>updated_from\<close> computes, with minimized set, yet no configure
  call with stack mode BELOW is issued, whereas the minimized native state issues exactly
  one. The condition of the source names the minimized state twice and the hidden state
  not at all.
\<close>

theorem scene_surface_state_set_hidden_not_lowered:
  "cached_state (snd (scene_surface_state_set c mir_window_state_hidden this)) =
     updated_from (cached_state this) mir_window_state_hidden \<and>
   minimized (cached_state (snd (scene_surface_state_set c mir_window_state_hidden this))) \<and>
   filter lowers_window (fst (scene_surface_state_set c mir_window_state_hidden this)) = [] \<and>
   filter lowers_window (fst (scene_surface_state_set c mir_window_state_minimized this)) =
     [ConfigureWindow (window this) None None None (Some XCB_STACK_MODE_BELOW)]"
  by (simp add: scene_surface_state_set_def Let_def fst_and_then snd_and_then
      snd_inform_client_of_window_state lowers_window_inform)

theorem scene_surface_state_set_hidden_example:
  "scene_surface_state_set example_connection mir_window_state_hidden example_bridge =
     ([SetProperty XCBType_WM_STATE 42 300 [3, 0], SetProperty XCBType_ATOM 42 301 [302],
       Flush],
      example_bridge\<lparr>cached_state := restored_state\<lparr>minimized := True\<rparr>\<rparr>)"
  by (simp add: scene_surface_state_set_def Let_def and_then_def
      inform_client_of_window_state_def WindowState_eq_def example_bridge_def
      example_connection_def restored_state_def XCB_WINDOW_NONE_def)

section \<open>Configure requests without a scene surface\<close>

text \<open>
  C7, counterexample. The request flags only X and asks for 50, and the bridge has no
  scene surface; the cached X is 10 before and after, so it is not updated.
\<close>

theorem configure_request_x_only_counterexample:
  "flagged example_event XCB_CONFIG_WINDOW_X \<and>
   \<not> flagged example_event XCB_CONFIG_WINDOW_Y \<and>
   \<not> flagged example_event XCB_CONFIG_WINDOW_WIDTH \<and>
   \<not> flagged example_event XCB_CONFIG_WINDOW_HEIGHT \<and>
   weak_scene_surface example_bridge = None \<and>
   sint (event_x example_event) = 50 \<and>
   point_x (cached_top_left (snd (configure_request example_event example_bridge))) = 10 \<and>
   point_x (cached_top_left (snd (configure_request example_event example_bridge))) \<noteq>
     sint (event_x example_event)"
  by (simp add: configure_request_def flagged_def example_bridge_def example_event_def
      XCB_CONFIG_WINDOW_X_def XCB_CONFIG_WINDOW_Y_def XCB_CONFIG_WINDOW_WIDTH_def
      XCB_CONFIG_WINDOW_HEIGHT_def)

text \<open>
  C7, amended. A configure request that flags X and none of Y, width and height, received
  while no scene surface is attached, leaves the bridge unchanged, the cached X, Y, width
  and height included, and issues exactly one configure call on the legacy window, with
  the requested X and the cached Y, width and height, followed by a flush.
\<close>

theorem configure_request_x_only:
  "flagged event XCB_CONFIG_WINDOW_X \<Longrightarrow>
   \<not> flagged event XCB_CONFIG_WINDOW_Y \<Longrightarrow>
   \<not> flagged event XCB_CONFIG_WINDOW_WIDTH \<Longrightarrow>
   \<not> flagged event XCB_CONFIG_WINDOW_HEIGHT \<Longrightarrow>
   weak_scene_surface this = None \<Longrightarrow>
   configure_request event this =
     ([ConfigureWindow (window this)
         (Some \<lparr>point_x = sint (event_x event), point_y = point_y (cached_top_left this)\<rparr>)
         (Some \<lparr>size_width = size_width (cached_size this),
                size_height = size_height (cached_size this)\<rparr>)
         None None,
       Flush],
      this)"
  by (simp add: configure_request_def)

theorem configure_request_x_only_witness:
  "configure_request example_event example_bridge =
     ([ConfigureWindow 42 (Some \<lparr>point_x = 50, point_y = 20\<rparr>)
         (Some \<lparr>size_width = 300, size_height = 200\<rparr>) None None,
       Flush],
      example_bridge)"
proof -
  have x: "flagged example_event XCB_CONFIG_WINDOW_X"
    by (simp add: flagged_def example_event_def XCB_CONFIG_WINDOW_X_def)
  have y: "\<not> flagged example_event XCB_CONFIG_WINDOW_Y"
    by (simp add: flagged_def example_event_def XCB_CONFIG_WINDOW_Y_def)
  have w: "\<not> flagged example_event XCB_CONFIG_WINDOW_WIDTH"
    by (simp add: flagged_def example_event_def XCB_CONFIG_WINDOW_WIDTH_def)
  have h: "\<not> flagged example_event XCB_CONFIG_WINDOW_HEIGHT"
    by (simp add: flagged_def example_event_def XCB_CONFIG_WINDOW_HEIGHT_def)
  have n: "weak_scene_surface example_bridge = None"
    by (simp add: example_bridge_def)
  show ?thesis
    using configure_request_x_only [OF x y w h n]
    by (simp add: example_bridge_def example_event_def)
qed

section \<open>Transient-for resolution\<close>

text \<open>
  \<open>wrap_int32\<close> is the 32-bit two's-complement result: it stays in range, leaves a
  value in range alone, and on the values of two 32-bit words it gives the value of
  their machine sum and difference.
\<close>

lemma wrap_int32_signed_take_bit: "wrap_int32 k = signed_take_bit 31 k"
  by (simp add: wrap_int32_def signed_take_bit_eq_take_bit_shift take_bit_eq_mod)

lemma wrap_int32_range: "- 2147483648 \<le> wrap_int32 k \<and> wrap_int32 k < 2147483648"
proof -
  have "0 \<le> (k + 2147483648) mod 4294967296" "(k + 2147483648) mod 4294967296 < 4294967296"
    by simp_all
  then show ?thesis unfolding wrap_int32_def by linarith
qed

lemma wrap_int32_in_range:
  "- 2147483648 \<le> k \<Longrightarrow> k < 2147483648 \<Longrightarrow> wrap_int32 k = k"
  by (simp add: wrap_int32_def)

lemma wrap_int32_word_minus: "wrap_int32 (sint a - sint b) = sint (a - b :: 32 word)"
  by (simp add: wrap_int32_signed_take_bit sint_word_ariths)

lemma wrap_int32_word_plus: "wrap_int32 (sint a + sint b) = sint (a + b :: 32 word)"
  by (simp add: wrap_int32_signed_take_bit sint_word_ariths)

text \<open>What \<open>is_transient_for\<close> returns, with the resolution written out.\<close>

lemma is_transient_for_eq:
  "is_transient_for xwm t this =
     ([], this\<lparr>nullable_pending_spec :=
            Some (set_position
                    (if t \<noteq> XCB_WINDOW_NONE
                     then case get_scene_surface_from xwm t of
                            Some s \<Rightarrow> Some s
                          | None \<Rightarrow> (case get_focused_window xwm of
                                       Some f \<Rightarrow> get_scene_surface_from xwm f
                                     | None \<Rightarrow> None)
                     else None)
                    (cached_top_left this)
                    ((case nullable_pending_spec this of None \<Rightarrow> empty_spec | Some spec \<Rightarrow> spec)
                       \<lparr>spec_parent :=
                          Some (if t \<noteq> XCB_WINDOW_NONE
                                then case get_scene_surface_from xwm t of
                                       Some s \<Rightarrow> Some s
                                     | None \<Rightarrow> (case get_focused_window xwm of
                                                  Some f \<Rightarrow> get_scene_surface_from xwm f
                                                | None \<Rightarrow> None)
                                else None)\<rparr>))\<rparr>)"
  by (simp add: is_transient_for_def pending_spec_update_def Let_def split: option.splits)

lemma get_scene_surface_from_None:
  "get_scene_surface_from xwm w = None \<longleftrightarrow>
     get_wm_surface xwm w = None \<or>
     (\<exists>b. get_wm_surface xwm w = Some b \<and> weak_scene_surface b = None)"
  by (auto simp: get_scene_surface_from_def split: option.splits)

lemma set_position_parent:
  "set_position (Some parent) top_left spec =
     spec\<lparr>spec_aux_rect :=
            Some \<lparr>rectangle_top_left =
                    \<lparr>point_x = wrap_int32 (wrap_int32 (point_x top_left -
                                  point_x (surface_top_left parent)) -
                                displacement_dx (surface_content_offset parent)),
                     point_y = wrap_int32 (wrap_int32 (point_y top_left -
                                  point_y (surface_top_left parent)) -
                                displacement_dy (surface_content_offset parent))\<rparr>,
                  rectangle_size = \<lparr>size_width = 1, size_height = 1\<rparr>\<rparr>,
          spec_placement_hints := Some 0,
          spec_surface_placement_gravity := Some mir_placement_gravity_northwest,
          spec_aux_rect_placement_gravity := Some mir_placement_gravity_northwest\<rparr>"
  by (simp add: set_position_def point_minus_def as_displacement_def Let_def)

text \<open>
  The subtraction wraps: a window at x = 2147483647 under a parent at x = -2 gets the
  local x = -2147483647.
\<close>

lemma set_position_wraps_example:
  "spec_aux_rect
     (set_position
        (Some (Surface 1 \<lparr>point_x = - 2, point_y = 0\<rparr>
                 \<lparr>displacement_dx = 0, displacement_dy = 0\<rparr>
                 \<lparr>size_width = 1, size_height = 1\<rparr> mir_window_state_restored None))
        \<lparr>point_x = 2147483647, point_y = 0\<rparr> empty_spec) =
   Some \<lparr>rectangle_top_left = \<lparr>point_x = - 2147483647, point_y = 0\<rparr>,
         rectangle_size = \<lparr>size_width = 1, size_height = 1\<rparr>\<rparr>"
  by (simp add: set_position_parent wrap_int32_def)

text \<open>
  C8. Transient-for resolution, in every case. The result is always written into the
  pending specification (created if there was none) and nowhere else, and no call is
  issued.
  \<^item> A reference that is not null and names a window whose bridge has a live scene
    surface: that surface is the parent.
  \<^item> A reference that is not null and names a window that has no bridge, or whose bridge
    has no live scene surface, while the focused window's bridge has a live scene
    surface: the focused window's surface is the parent.
  \<^item> A reference that is not null when neither lookup gives a surface (no focused window,
    or a focused window without a bridge or without a live scene surface): a null parent
    is written, with the cached top left as an absolute position.
  \<^item> The null reference: a null parent with the cached top left as an absolute position,
    whatever window is focused.

  With a parent, the position is an aux rect of size 1x1 at the cached top left minus
  the parent's top left minus the parent's content offset, each difference a 32-bit one,
  with empty placement hints and north-west gravities on both sides.
\<close>

theorem is_transient_for_focused_fallback:
  "(transient_for \<noteq> XCB_WINDOW_NONE \<and>
    get_wm_surface xwm transient_for = Some direct_bridge \<and>
    weak_scene_surface direct_bridge = Some direct_parent \<longrightarrow>
      is_transient_for xwm transient_for this =
        ([], this\<lparr>nullable_pending_spec :=
               Some ((case nullable_pending_spec this of
                        None \<Rightarrow> empty_spec | Some spec \<Rightarrow> spec)
                     \<lparr>spec_parent := Some (Some direct_parent),
                      spec_aux_rect :=
                        Some \<lparr>rectangle_top_left =
                                \<lparr>point_x =
                                   wrap_int32 (wrap_int32 (point_x (cached_top_left this) -
                                       point_x (surface_top_left direct_parent)) -
                                     displacement_dx (surface_content_offset direct_parent)),
                                 point_y =
                                   wrap_int32 (wrap_int32 (point_y (cached_top_left this) -
                                       point_y (surface_top_left direct_parent)) -
                                     displacement_dy (surface_content_offset direct_parent))\<rparr>,
                              rectangle_size = \<lparr>size_width = 1, size_height = 1\<rparr>\<rparr>,
                      spec_placement_hints := Some 0,
                      spec_surface_placement_gravity := Some mir_placement_gravity_northwest,
                      spec_aux_rect_placement_gravity :=
                        Some mir_placement_gravity_northwest\<rparr>)\<rparr>)) \<and>
   (transient_for \<noteq> XCB_WINDOW_NONE \<and>
    (get_wm_surface xwm transient_for = None \<or>
     (\<exists>b. get_wm_surface xwm transient_for = Some b \<and> weak_scene_surface b = None)) \<and>
    get_focused_window xwm = Some focused \<and>
    get_wm_surface xwm focused = Some focused_bridge \<and>
    weak_scene_surface focused_bridge = Some parent \<longrightarrow>
      is_transient_for xwm transient_for this =
        ([], this\<lparr>nullable_pending_spec :=
               Some ((case nullable_pending_spec this of
                        None \<Rightarrow> empty_spec | Some spec \<Rightarrow> spec)
                     \<lparr>spec_parent := Some (Some parent),
                      spec_aux_rect :=
                        Some \<lparr>rectangle_top_left =
                                \<lparr>point_x =
                                   wrap_int32 (wrap_int32 (point_x (cached_top_left this) -
                                       point_x (surface_top_left parent)) -
                                     displacement_dx (surface_content_offset parent)),
                                 point_y =
                                   wrap_int32 (wrap_int32 (point_y (cached_top_left this) -
                                       point_y (surface_top_left parent)) -
                                     displacement_dy (surface_content_offset parent))\<rparr>,
                              rectangle_size = \<lparr>size_width = 1, size_height = 1\<rparr>\<rparr>,
                      spec_placement_hints := Some 0,
                      spec_surface_placement_gravity := Some mir_placement_gravity_northwest,
                      spec_aux_rect_placement_gravity :=
                        Some mir_placement_gravity_northwest\<rparr>)\<rparr>)) \<and>
   (transient_for \<noteq> XCB_WINDOW_NONE \<and>
    (get_wm_surface xwm transient_for = None \<or>
     (\<exists>b. get_wm_surface xwm transient_for = Some b \<and> weak_scene_surface b = None)) \<and>
    (get_focused_window xwm = None \<or>
     (\<exists>f. get_focused_window xwm = Some f \<and>
          (get_wm_surface xwm f = None \<or>
           (\<exists>b. get_wm_surface xwm f = Some b \<and> weak_scene_surface b = None)))) \<longrightarrow>
      is_transient_for xwm transient_for this =
        ([], this\<lparr>nullable_pending_spec :=
               Some ((case nullable_pending_spec this of
                        None \<Rightarrow> empty_spec | Some spec \<Rightarrow> spec)
                     \<lparr>spec_parent := Some None,
                      spec_top_left := Some (cached_top_left this)\<rparr>)\<rparr>)) \<and>
   is_transient_for xwm XCB_WINDOW_NONE this =
     ([], this\<lparr>nullable_pending_spec :=
            Some ((case nullable_pending_spec this of
                     None \<Rightarrow> empty_spec | Some spec \<Rightarrow> spec)
                  \<lparr>spec_parent := Some None,
                   spec_top_left := Some (cached_top_left this)\<rparr>)\<rparr>)"
proof -
  let ?spec = "case nullable_pending_spec this of None \<Rightarrow> empty_spec | Some spec \<Rightarrow> spec"
  let ?parentless = "([] :: effect list, this\<lparr>nullable_pending_spec :=
      Some (?spec\<lparr>spec_parent := Some None,
                  spec_top_left := Some (cached_top_left this)\<rparr>)\<rparr>)"
  have with_parent: "is_transient_for xwm transient_for this =
      ([], this\<lparr>nullable_pending_spec :=
             Some (set_position (Some p) (cached_top_left this)
                     (?spec\<lparr>spec_parent := Some (Some p)\<rparr>))\<rparr>)"
    if "transient_for \<noteq> XCB_WINDOW_NONE"
      and "get_scene_surface_from xwm transient_for = Some p \<or>
           get_scene_surface_from xwm transient_for = None \<and>
           (\<exists>f. get_focused_window xwm = Some f \<and> get_scene_surface_from xwm f = Some p)"
    for p
    using that by (auto simp: is_transient_for_eq)
  have null: "is_transient_for xwm XCB_WINDOW_NONE this = ?parentless"
    by (simp add: is_transient_for_eq set_position_def)
  have direct: "is_transient_for xwm transient_for this =
      ([], this\<lparr>nullable_pending_spec :=
             Some (set_position (Some direct_parent) (cached_top_left this)
                     (?spec\<lparr>spec_parent := Some (Some direct_parent)\<rparr>))\<rparr>)"
    if "transient_for \<noteq> XCB_WINDOW_NONE"
      "get_wm_surface xwm transient_for = Some direct_bridge"
      "weak_scene_surface direct_bridge = Some direct_parent"
  proof -
    from that have "get_scene_surface_from xwm transient_for = Some direct_parent"
      by (simp add: get_scene_surface_from_def)
    with that(1) show ?thesis by (simp add: with_parent)
  qed
  have fallback: "is_transient_for xwm transient_for this =
      ([], this\<lparr>nullable_pending_spec :=
             Some (set_position (Some parent) (cached_top_left this)
                     (?spec\<lparr>spec_parent := Some (Some parent)\<rparr>))\<rparr>)"
    if "transient_for \<noteq> XCB_WINDOW_NONE"
      "get_wm_surface xwm transient_for = None \<or>
        (\<exists>b. get_wm_surface xwm transient_for = Some b \<and> weak_scene_surface b = None)"
      "get_focused_window xwm = Some focused"
      "get_wm_surface xwm focused = Some focused_bridge"
      "weak_scene_surface focused_bridge = Some parent"
  proof -
    from that(2) have "get_scene_surface_from xwm transient_for = None"
      by (simp add: get_scene_surface_from_None)
    moreover from that have "get_scene_surface_from xwm focused = Some parent"
      by (simp add: get_scene_surface_from_def)
    ultimately show ?thesis using that(1,3) by (simp add: with_parent)
  qed
  have unresolved: "is_transient_for xwm transient_for this = ?parentless"
    if "transient_for \<noteq> XCB_WINDOW_NONE"
      "get_wm_surface xwm transient_for = None \<or>
        (\<exists>b. get_wm_surface xwm transient_for = Some b \<and> weak_scene_surface b = None)"
      "get_focused_window xwm = None \<or>
       (\<exists>f. get_focused_window xwm = Some f \<and>
            (get_wm_surface xwm f = None \<or>
             (\<exists>b. get_wm_surface xwm f = Some b \<and> weak_scene_surface b = None)))"
  proof -
    from that(2) have d: "get_scene_surface_from xwm transient_for = None"
      by (simp add: get_scene_surface_from_None)
    from that(3) have "get_focused_window xwm = None \<or>
       (\<exists>f. get_focused_window xwm = Some f \<and> get_scene_surface_from xwm f = None)"
      by (simp add: get_scene_surface_from_None)
    then show ?thesis
      using that(1) d by (auto simp: is_transient_for_eq set_position_def)
  qed
  show ?thesis
    using direct fallback unresolved null
    by (simp only: set_position_parent SurfaceSpecification.simps) blast
qed

theorem is_transient_for_focused_fallback_witness:
  "(43 :: xcb_window_t) \<noteq> XCB_WINDOW_NONE \<and>
   get_wm_surface example_wm 43 = Some (example_bridge\<lparr>window := 43\<rparr>) \<and>
   weak_scene_surface (example_bridge\<lparr>window := 43\<rparr>) = None \<and>
   get_focused_window example_wm = Some 44 \<and>
   is_transient_for example_wm 43 example_bridge =
     ([], example_bridge\<lparr>nullable_pending_spec :=
            Some (empty_spec
                  \<lparr>spec_parent := Some (Some example_surface),
                   spec_aux_rect :=
                     Some \<lparr>rectangle_top_left = \<lparr>point_x = - 90, point_y = - 54\<rparr>,
                           rectangle_size = \<lparr>size_width = 1, size_height = 1\<rparr>\<rparr>,
                   spec_placement_hints := Some 0,
                   spec_surface_placement_gravity := Some mir_placement_gravity_northwest,
                   spec_aux_rect_placement_gravity :=
                     Some mir_placement_gravity_northwest\<rparr>)\<rparr>) \<and>
   get_focused_window (example_wm\<lparr>get_focused_window := None\<rparr>) = None \<and>
   is_transient_for (example_wm\<lparr>get_focused_window := None\<rparr>) 43 example_bridge =
     ([], example_bridge\<lparr>nullable_pending_spec :=
            Some (empty_spec
                  \<lparr>spec_parent := Some None,
                   spec_top_left := Some \<lparr>point_x = 10, point_y = 20\<rparr>\<rparr>)\<rparr>) \<and>
   (44 :: xcb_window_t) \<noteq> XCB_WINDOW_NONE \<and>
   is_transient_for (example_wm\<lparr>get_focused_window := None\<rparr>) 44 example_bridge =
     ([], example_bridge\<lparr>nullable_pending_spec :=
            Some (empty_spec
                  \<lparr>spec_parent := Some (Some example_surface),
                   spec_aux_rect :=
                     Some \<lparr>rectangle_top_left = \<lparr>point_x = - 90, point_y = - 54\<rparr>,
                           rectangle_size = \<lparr>size_width = 1, size_height = 1\<rparr>\<rparr>,
                   spec_placement_hints := Some 0,
                   spec_surface_placement_gravity := Some mir_placement_gravity_northwest,
                   spec_aux_rect_placement_gravity :=
                     Some mir_placement_gravity_northwest\<rparr>)\<rparr>)"
  using is_transient_for_focused_fallback
          [where transient_for = 43 and xwm = example_wm and focused = 44
             and focused_bridge = "example_bridge\<lparr>window := 44,
               weak_scene_surface := Some example_surface\<rparr>"
             and parent = example_surface and this = example_bridge]
        is_transient_for_focused_fallback
          [where transient_for = 43 and xwm = "example_wm\<lparr>get_focused_window := None\<rparr>"
             and this = example_bridge]
        is_transient_for_focused_fallback
          [where transient_for = 44 and xwm = "example_wm\<lparr>get_focused_window := None\<rparr>"
             and direct_bridge = "example_bridge\<lparr>window := 44,
               weak_scene_surface := Some example_surface\<rparr>"
             and direct_parent = example_surface and this = example_bridge]
  by (simp add: example_wm_def example_bridge_def example_surface_def XCB_WINDOW_NONE_def
      wrap_int32_def)

section \<open>Attaching twice\<close>

lemma surface_observer_pending_spec_update [simp]:
  "surface_observer (pending_spec_update f this) = surface_observer this"
  by (simp add: pending_spec_update_def split: option.splits)

lemma weak_session_pending_spec_update [simp]:
  "weak_session (pending_spec_update f this) = weak_session this"
  by (simp add: pending_spec_update_def split: option.splits)

lemma weak_scene_surface_pending_spec_update [simp]:
  "weak_scene_surface (pending_spec_update f this) = weak_scene_surface this"
  by (simp add: pending_spec_update_def split: option.splits)

lemma refs_apply_reply:
  "surface_observer (apply_reply xwm r this) = surface_observer this \<and>
   weak_session (apply_reply xwm r this) = weak_session this \<and>
   weak_scene_surface (apply_reply xwm r this) = weak_scene_surface this"
  by (cases r) (simp_all add: is_transient_for_def Let_def)

lemma refs_fold_apply_reply:
  "surface_observer (fold (apply_reply xwm) rs this) = surface_observer this \<and>
   weak_session (fold (apply_reply xwm) rs this) = weak_session this \<and>
   weak_scene_surface (fold (apply_reply xwm) rs this) = weak_scene_surface this"
  by (induction rs arbitrary: this) (simp_all add: refs_apply_reply)

lemma refs_consume_pending_spec:
  "surface_observer (snd (consume_pending_spec this)) = surface_observer this \<and>
   weak_session (snd (consume_pending_spec this)) = weak_session this \<and>
   weak_scene_surface (snd (consume_pending_spec this)) = weak_scene_surface this"
  by (simp add: consume_pending_spec_def split: option.splits)

lemma attach_wl_surface_refs:
  "\<not> (is_set (surface_observer this) \<or> is_set (weak_session this) \<or>
       is_set (weak_scene_surface this)) \<Longrightarrow>
   fst (attach_wl_surface c xwm wl session rs surface this) = Returned \<and>
   surface_observer (snd (snd (attach_wl_surface c xwm wl session rs surface this))) =
     Some (XWaylandSurfaceObserver wl) \<and>
   weak_session (snd (snd (attach_wl_surface c xwm wl session rs surface this))) = session \<and>
   weak_scene_surface (snd (snd (attach_wl_surface c xwm wl session rs surface this))) =
     Some surface"
  by (simp add: attach_wl_surface_def Let_def snd_inform_client_of_window_state
      refs_consume_pending_spec refs_fold_apply_reply)

lemma attach_wl_surface_throws:
  "is_set (surface_observer this) \<or> is_set (weak_session this) \<or>
     is_set (weak_scene_surface this) \<Longrightarrow>
   attach_wl_surface c xwm wl session rs surface this =
     (Thrown set_wl_surface_called_multiple_times, [], this)"
  by (simp add: attach_wl_surface_def)

lemma attach_wl_surface_Returned:
  "fst (attach_wl_surface c xwm wl session rs surface this) = Returned \<Longrightarrow>
   \<not> (is_set (surface_observer this) \<or> is_set (weak_session this) \<or>
       is_set (weak_scene_surface this))"
  by (auto simp: attach_wl_surface_def)

text \<open>
  C9. A call of \<open>attach_wl_surface\<close> made while the bridge has a surface observer, a
  live session or a live scene surface throws and leaves the bridge, those three
  references included, as it was, with no call issued. An attach on a bridge that has
  none of the three returns and leaves the observer, the session and the scene surface
  set, so that any attach that follows a returned one throws.
\<close>

theorem attach_wl_surface_once:
  "(is_set (surface_observer this) \<or> is_set (weak_session this) \<or>
    is_set (weak_scene_surface this) \<longrightarrow>
      attach_wl_surface c xwm wl session rs surface this =
        (Thrown set_wl_surface_called_multiple_times, [], this)) \<and>
   (fst (attach_wl_surface c xwm wl session rs surface this) = Returned \<longrightarrow>
      attach_wl_surface c' xwm' wl' session' rs' surface'
          (snd (snd (attach_wl_surface c xwm wl session rs surface this))) =
        (Thrown set_wl_surface_called_multiple_times, [],
         snd (snd (attach_wl_surface c xwm wl session rs surface this)))) \<and>
   (is_set (surface_observer this) = False \<and> is_set (weak_session this) = False \<and>
    is_set (weak_scene_surface this) = False \<longrightarrow>
      fst (attach_wl_surface c xwm wl session rs surface this) = Returned \<and>
      surface_observer (snd (snd (attach_wl_surface c xwm wl session rs surface this))) =
        Some (XWaylandSurfaceObserver wl) \<and>
      weak_session (snd (snd (attach_wl_surface c xwm wl session rs surface this))) =
        session \<and>
      weak_scene_surface (snd (snd (attach_wl_surface c xwm wl session rs surface this))) =
        Some surface)"
proof -
  have second: "attach_wl_surface c' xwm' wl' session' rs' surface'
          (snd (snd (attach_wl_surface c xwm wl session rs surface this))) =
        (Thrown set_wl_surface_called_multiple_times, [],
         snd (snd (attach_wl_surface c xwm wl session rs surface this)))"
    if "fst (attach_wl_surface c xwm wl session rs surface this) = Returned"
  proof -
    from that have "\<not> (is_set (surface_observer this) \<or> is_set (weak_session this) \<or>
       is_set (weak_scene_surface this))"
      by (rule attach_wl_surface_Returned)
    then have "surface_observer (snd (snd (attach_wl_surface c xwm wl session rs surface this)))
        = Some (XWaylandSurfaceObserver wl)"
      using attach_wl_surface_refs by blast
    then show ?thesis
      by (simp add: attach_wl_surface_throws)
  qed
  show ?thesis
    using second attach_wl_surface_throws [of this c xwm wl session rs surface]
      attach_wl_surface_refs [of this c xwm wl session rs surface]
    by blast
qed

theorem attach_wl_surface_once_witness:
  "is_set (surface_observer example_bridge) = False \<and>
   is_set (weak_session example_bridge) = False \<and>
   is_set (weak_scene_surface example_bridge) = False \<and>
   fst (attach_wl_surface example_connection example_wm \<lparr>wl_resource = 5\<rparr> (Some (Session 1))
          [reply_wm_class ''xterm'', reply_wm_transient_for 43] example_surface
          example_bridge) = Returned \<and>
   fst (attach_wl_surface example_connection example_wm \<lparr>wl_resource = 6\<rparr> (Some (Session 1))
          [] example_surface
          (snd (snd (attach_wl_surface example_connection example_wm \<lparr>wl_resource = 5\<rparr>
             (Some (Session 1)) [reply_wm_class ''xterm'', reply_wm_transient_for 43]
             example_surface example_bridge)))) =
     Thrown set_wl_surface_called_multiple_times"
  using attach_wl_surface_once
          [where this = example_bridge and c = example_connection and xwm = example_wm
             and wl = "\<lparr>wl_resource = 5\<rparr>" and session = "Some (Session 1)"
             and rs = "[reply_wm_class ''xterm'', reply_wm_transient_for 43]"
             and surface = example_surface and c' = example_connection and xwm' = example_wm
             and wl' = "\<lparr>wl_resource = 6\<rparr>" and session' = "Some (Session 1)"
             and rs' = "[]" and surface' = example_surface]
  by (simp add: example_bridge_def)

end
